theory Spec2Isabelle
  imports Main
begin

section \<open>Errors\<close>

text \<open>
  Every \<^verbatim>\<open>raise\<close> of \<^verbatim>\<open>spatialdata/_core/models.py\<close> and every exception of
  a collaborator that the code lets through is a value of this type. \<open>SchemaError\<close> is
  the exception of the array schema library, the others are Python's own.
\<close>

datatype error =
  ValueError | KeyError | IndexError | TypeError | AssertionError | SchemaError
  | NotImplementedError

section \<open>Transformations and their attachment\<close>

datatype transformation =
  Identity
  | Scale "int list" "string list"
  | Affine "int list list" "string list"
  | Sequence "transformation list"

text \<open>
  \<^verbatim>\<open>MappingToCoordinateSystem_t\<close>: a dict from coordinate system names to
  transformations, kept as the list of its items in insertion order; \<^verbatim>\<open>len\<close> is
  \<^const>\<open>length\<close>.
\<close>

type_synonym mapping_to_cs = "(string \<times> transformation) list"

definition DEFAULT_COORDINATE_SYSTEM :: string where
  "DEFAULT_COORDINATE_SYSTEM = ''global''"

text \<open>
  A spatial element, as far as the attachment of transformations sees it: the entry
  \<^verbatim>\<open>"transform"\<close> of its \<^verbatim>\<open>attrs\<close>, absent (\<open>None\<close>) or a mapping. The element
  kinds below extend this record.
\<close>

record element =
  attrs_transform :: "mapping_to_cs option"

text \<open>
  Modelled from the spec: \<^verbatim>\<open>_get_transformations\<close>, \<^verbatim>\<open>_set_transformations\<close> and
  \<^verbatim>\<open>_validate_mapping_to_coordinate_system_type\<close> live in \<^verbatim>\<open>core_utils.py\<close>,
  which is not among the sources. Section 3 of the specification gives every element one
  attached mapping, and section 4.1 has the attachment read it and overwrite it in place.
  The type check of the argument accepts \<^verbatim>\<open>None\<close> and every dict from names to
  transformations, which is all the type \<^typ>\<open>mapping_to_cs option\<close> contains.
\<close>

definition get_transformations :: "'a element_scheme \<Rightarrow> mapping_to_cs option" where
  "get_transformations e = attrs_transform e"

definition set_transformations :: "'a element_scheme \<Rightarrow> mapping_to_cs \<Rightarrow> 'a element_scheme" where
  "set_transformations e m = e\<lparr>attrs_transform := Some m\<rparr>"

definition validate_mapping_to_coordinate_system_type :: "mapping_to_cs option \<Rightarrow> error + unit" where
  "validate_mapping_to_coordinate_system_type transformations = Inr ()"

text \<open>
  \<^verbatim>\<open>_parse_transformations\<close> (models.py, lines 81 to 103). The element is mutated only
  by the last line, so a raise leaves it as it was: the result is the error, or the
  element after \<^verbatim>\<open>_set_transformations\<close>.
\<close>

definition parse_transformations ::
  "'a element_scheme \<Rightarrow> mapping_to_cs option \<Rightarrow> error + 'a element_scheme" where
  "parse_transformations e transformations =
     (case validate_mapping_to_coordinate_system_type transformations of
        Inl err \<Rightarrow> Inl err
      | Inr _ \<Rightarrow>
          (let transformations_in_element = get_transformations e in
           if transformations_in_element \<noteq> None
              \<and> length (the transformations_in_element) > 0
              \<and> transformations \<noteq> None
              \<and> length (the transformations) > 0
           then Inl ValueError
           else if transformations_in_element \<noteq> None
                   \<and> length (the transformations_in_element) > 0
           then Inr (set_transformations e (the transformations_in_element))
           else if transformations \<noteq> None \<and> length (the transformations) > 0
           then Inr (set_transformations e (the transformations))
           else Inr (set_transformations e [(DEFAULT_COORDINATE_SYSTEM, Identity)])))"

section \<open>Shapes\<close>

text \<open>
  The geometry engine's kinds (\<^verbatim>\<open>shapely.GeometryType\<close>, with the integer tags
  -1 to 7). The model keeps of a geometry only its kind, which is all that
  \<^verbatim>\<open>isinstance(geom_, (Polygon, MultiPolygon, Point))\<close> reads; \<open>MISSING\<close> is the
  kind of a missing entry.
\<close>

datatype geometry_type =
  MISSING | POINT | LINESTRING | LINEARRING | POLYGON | MULTIPOINT | MULTILINESTRING
  | MULTIPOLYGON | GEOMETRYCOLLECTION

type_synonym geometry = geometry_type


text \<open>
  A column of a geometry table is a \<^verbatim>\<open>GeoSeries\<close> of geometries or a plain series
  of numbers. A \<^verbatim>\<open>GeoDataFrame\<close> is its columns in order, with the default index
  \<open>0, 1, \<dots>\<close>, and the \<^verbatim>\<open>attrs\<close> entry of the element.
\<close>

datatype series = GeoSeries "geometry list" | Series "int list"

record geodataframe = element +
  columns :: "(string \<times> series) list"

definition GEOMETRY_KEY :: string where "GEOMETRY_KEY = ''geometry''"
definition RADIUS_KEY :: string where "RADIUS_KEY = ''radius''"



text \<open>\<^verbatim>\<open>k in data.columns\<close>.\<close>

definition has_column :: "'a geodataframe_scheme \<Rightarrow> string \<Rightarrow> bool" where
  "has_column data k = (k \<in> set (map fst (columns data)))"



text \<open>
  The two reads of the first row. \<^verbatim>\<open>data["geometry"].values[0]\<close> indexes the array of
  values by position and raises \<^verbatim>\<open>IndexError\<close> on an empty one;
  \<^verbatim>\<open>data["geometry"][0]\<close> looks the label 0 up in the index and raises
  \<^verbatim>\<open>KeyError\<close> when the frame has no row. An entry of a plain series is a number,
  of no geometry kind: it is read as \<open>None\<close>.
\<close>

fun values_0 :: "series \<Rightarrow> error + geometry option" where
  "values_0 (GeoSeries []) = Inl IndexError"
| "values_0 (GeoSeries (g # gs)) = Inr (Some g)"
| "values_0 (Series []) = Inl IndexError"
| "values_0 (Series (x # xs)) = Inr None"


text \<open>\<^verbatim>\<open>ShapesModel.validate\<close> (lines 314 to 328).\<close>

definition shapes_validate :: "'a geodataframe_scheme \<Rightarrow> error + unit" where
  "shapes_validate data =
     (case map_of (columns data) GEOMETRY_KEY of
        None \<Rightarrow> Inl KeyError
      | Some (Series xs) \<Rightarrow> Inl ValueError
      | Some (GeoSeries gs) \<Rightarrow>
          (case values_0 (GeoSeries gs) of
             Inl err \<Rightarrow> Inl err
           | Inr geom \<Rightarrow>
               if geom \<notin> {Some POLYGON, Some MULTIPOLYGON, Some POINT} then Inl ValueError
               else if geom = Some POINT \<and> \<not> has_column data RADIUS_KEY then Inl ValueError
               else if attrs_transform data = None then Inl ValueError
               else Inr ()))"






section \<open>Points\<close>

datatype dtype = Float32 | Float64 | Int64 | Int32 | Category | Object


definition INSTANCE_KEY :: string where "INSTANCE_KEY = ''instance_key''"





section \<open>Annotation table\<close>

text \<open>
  The values that the region linkage passes around: \<^verbatim>\<open>None\<close>, a string, a list of
  strings, or a value of another type (which \<^verbatim>\<open>parse\<close> tells apart with
  \<^verbatim>\<open>isinstance\<close>).
\<close>

datatype pyval = PNone | PStr string | PList "string list" | POther

text \<open>
  Of an \<^verbatim>\<open>AnnData\<close> table, \<^verbatim>\<open>parse\<close> reads and writes the observation columns
  \<^verbatim>\<open>obs\<close> and the block \<^verbatim>\<open>uns["spatialdata_attrs"]\<close>, a dict that may be absent.
\<close>

record obs_column =
  col_values :: "pyval list"
  categorical :: bool

record anndata =
  obs :: "(string \<times> obs_column) list"
  uns_attrs :: "(string \<times> pyval) list option"

definition REGION_KEY :: string where "REGION_KEY = ''region''"
definition REGION_KEY_KEY :: string where "REGION_KEY_KEY = ''region_key''"

text \<open>
  \<^verbatim>\<open>adata.obs[region_key]\<close>: the column of that name, \<^verbatim>\<open>KeyError\<close> when there is
  none. The signature declares \<^verbatim>\<open>region_key\<close> a string; a value of another type names
  no column.
\<close>

definition obs_getitem :: "anndata \<Rightarrow> pyval \<Rightarrow> error + obs_column" where
  "obs_getitem adata key =
     (case key of
        PStr k \<Rightarrow> (case map_of (obs adata) k of None \<Rightarrow> Inl KeyError | Some col \<Rightarrow> Inr col)
      | _ \<Rightarrow> Inl KeyError)"

text \<open>\<^verbatim>\<open>series.isin(region)\<close>, for one value.\<close>

definition isin :: "string list \<Rightarrow> pyval \<Rightarrow> bool" where
  "isin region v = (case v of PStr s \<Rightarrow> s \<in> set region | _ \<Rightarrow> False)"

text \<open>\<^verbatim>\<open>adata.obs[k] = pd.Categorical(adata.obs[k])\<close>, for a column that exists.\<close>

definition to_categorical :: "anndata \<Rightarrow> pyval \<Rightarrow> anndata" where
  "to_categorical adata key =
     adata\<lparr>obs := map (\<lambda>(k, col). if PStr k = key then (k, col\<lparr>categorical := True\<rparr>)
                               else (k, col)) (obs adata)\<rparr>"

text \<open>
  \<^verbatim>\<open>TableModel.parse\<close> (lines 629 to 674), in three steps: where the triple comes
  from (lines 638 to 648), the checks on it (lines 650 to 669), and the write of the
  block (lines 672 to 674). The table is mutated in place, so a raise carries the table
  as the raise leaves it: \<open>Inl (err, adata)\<close>.
\<close>

definition table_sources ::
  "anndata \<Rightarrow> pyval \<Rightarrow> pyval \<Rightarrow> pyval \<Rightarrow> error + (pyval \<times> pyval \<times> pyval)" where
  "table_sources adata region region_key instance_key =
     (let n_args = length (filter (\<lambda>v. v \<noteq> PNone) [region, region_key, instance_key]) in
      if n_args > 0 then
        (if uns_attrs adata \<noteq> None then Inl ValueError
         else Inr (region, region_key, instance_key))
      else
        (case uns_attrs adata of
           None \<Rightarrow> Inr (region, region_key, instance_key)
         | Some attr \<Rightarrow>
             (case map_of attr REGION_KEY of
                None \<Rightarrow> Inl KeyError
              | Some r \<Rightarrow>
             (case map_of attr REGION_KEY_KEY of
                None \<Rightarrow> Inl KeyError
              | Some rk \<Rightarrow>
             (case map_of attr INSTANCE_KEY of
                None \<Rightarrow> Inl KeyError
              | Some ik \<Rightarrow> Inr (r, rk, ik))))))"

definition table_checks ::
  "anndata \<Rightarrow> pyval \<Rightarrow> pyval \<Rightarrow> pyval \<Rightarrow> (error \<times> anndata) + anndata" where
  "table_checks adata region region_key instance_key =
     (case region of
        PStr s \<Rightarrow>
          if region_key \<noteq> PNone then Inl (ValueError, adata)
          else if instance_key = PNone then Inl (ValueError, adata)
          else Inr adata
      | PList rs \<Rightarrow>
          if region_key = PNone then Inl (ValueError, adata)
          else
            (case obs_getitem adata region_key of
               Inl err \<Rightarrow> Inl (err, adata)
             | Inr col \<Rightarrow>
                 if \<not> list_all (isin rs) (col_values col) then Inl (ValueError, adata)
                 else
                   (let adata = (if \<not> categorical col then to_categorical adata region_key
                                 else adata) in
                    if instance_key = PNone then Inl (ValueError, adata)
                    else Inr adata))
      | PNone \<Rightarrow> Inr adata
      | POther \<Rightarrow> Inl (ValueError, adata))"

definition table_parse ::
  "anndata \<Rightarrow> pyval \<Rightarrow> pyval \<Rightarrow> pyval \<Rightarrow> (error \<times> anndata) + anndata" where
  "table_parse adata region region_key instance_key =
     (case table_sources adata region region_key instance_key of
        Inl err \<Rightarrow> Inl (err, adata)
      | Inr (region, region_key, instance_key) \<Rightarrow>
     (case table_checks adata region region_key instance_key of
        Inl raised \<Rightarrow> Inl raised
      | Inr adata \<Rightarrow>
          Inr (adata\<lparr>uns_attrs := Some [(REGION_KEY, region), (REGION_KEY_KEY, region_key),
                                          (INSTANCE_KEY, instance_key)]\<rparr>)))"

section \<open>Raster elements\<close>

text \<open>
  The array behind a raster: an in-memory array or a lazily chunked one. A labelled
  array (\<^verbatim>\<open>xarray.DataArray\<close>, and its subclass \<^verbatim>\<open>SpatialImage\<close>) has dimension
  labels, a shape with one extent for each label, the array behind it, and the
  \<^verbatim>\<open>attrs\<close> entry of the element.
\<close>

datatype backing = Numpy | Dask

record data_array = element +
  da_dims :: "string list"
  da_shape :: "nat list"
  da_data :: backing


text \<open>
  A multiscale element is a tree of levels in order; each level is a dataset, the list
  of its named data variables.
\<close>

record multiscale = element +
  levels :: "(string \<times> (string \<times> data_array) list) list"

datatype raster_element =
  SpatialImage data_array | MultiscaleSpatialImage multiscale | OtherElement

text \<open>
  The four schemas and their \<^verbatim>\<open>dims\<close> (lines 244 to 301). The axis names
  \<^verbatim>\<open>C, Z, Y, X\<close> come from \<^verbatim>\<open>core_utils.py\<close>; section 3 of the specification
  spells them \<open>c, z, y, x\<close>.
\<close>

datatype raster_schema = Labels2DModel | Labels3DModel | Image2DModel | Image3DModel

fun cls_dims :: "raster_schema \<Rightarrow> string list" where
  "cls_dims Labels2DModel = [''y'', ''x'']"
| "cls_dims Labels3DModel = [''z'', ''y'', ''x'']"
| "cls_dims Image2DModel = [''c'', ''y'', ''x'']"
| "cls_dims Image3DModel = [''c'', ''z'', ''y'', ''x'']"









text \<open>
  \<^verbatim>\<open>super().validate\<close>, the schema of a labelled array built by each model class:
  the dims in the schema's order (\<^verbatim>\<open>DimsSchema\<close>), the attribute \<^verbatim>\<open>"transform"\<close>
  (\<^verbatim>\<open>AttrsSchema\<close>) and a chunked array behind (\<^verbatim>\<open>ArrayTypeSchema(DaskArray)\<close>). The
  schema library raises its own \<^verbatim>\<open>SchemaError\<close>.
\<close>

definition schema_validate :: "raster_schema \<Rightarrow> data_array \<Rightarrow> error + unit" where
  "schema_validate cls da =
     (if da_dims da \<noteq> cls_dims cls then Inl SchemaError
      else if attrs_transform da = None then Inl SchemaError
      else if da_data da \<noteq> Dask then Inl SchemaError
      else Inr ())"

text \<open>The decimal digits of a number, for \<^verbatim>\<open>f"scale{i}"\<close>.\<close>

function str_nat :: "nat \<Rightarrow> string" where
  "str_nat n =
     (if n < 10 then [''0123456789'' ! n]
      else str_nat (n div 10) @ [''0123456789'' ! (n mod 10)])"
  by pat_completeness auto
termination
  by (relation "measure id") auto

declare str_nat.simps [simp del]

text \<open>
  \<^verbatim>\<open>RasterSchema.validate\<close> for a multiscale element (lines 231 to 241): the loop over
  the zipped keys, the set of the first variable name of every level, and the loop
  that validates the variable of that name at every level.
\<close>

fun check_keys :: "(string \<times> string) list \<Rightarrow> error + unit" where
  "check_keys [] = Inr ()"
| "check_keys ((j, k) # rest) = (if j \<noteq> k then Inl ValueError else check_keys rest)"

fun first_names :: "(string \<times> (string \<times> data_array) list) list \<Rightarrow> error + string list" where
  "first_names [] = Inr []"
| "first_names ((key, data_vars) # rest) =
     (case data_vars of
        [] \<Rightarrow> Inl IndexError
      | (n, da) # others \<Rightarrow>
          (case first_names rest of
             Inl err \<Rightarrow> Inl err
           | Inr ns \<Rightarrow> Inr (n # ns)))"

fun validate_levels ::
  "raster_schema \<Rightarrow> string \<Rightarrow> (string \<times> (string \<times> data_array) list) list \<Rightarrow> error + unit" where
  "validate_levels cls name [] = Inr ()"
| "validate_levels cls name ((key, data_vars) # rest) =
     (case map_of data_vars name of
        None \<Rightarrow> Inl KeyError
      | Some da \<Rightarrow>
          (case schema_validate cls da of
             Inl err \<Rightarrow> Inl err
           | Inr _ \<Rightarrow> validate_levels cls name rest))"

fun raster_validate :: "raster_schema \<Rightarrow> raster_element \<Rightarrow> error + unit" where
  "raster_validate cls OtherElement = Inl ValueError"
| "raster_validate cls (SpatialImage data) = schema_validate cls data"
| "raster_validate cls (MultiscaleSpatialImage data) =
     (let keys = map fst (levels data) in
      (case check_keys (zip keys (map (\<lambda>i. ''scale'' @ str_nat i) [0..<length keys])) of
         Inl err \<Rightarrow> Inl err
       | Inr _ \<Rightarrow>
      (case first_names (levels data) of
         Inl err \<Rightarrow> Inl err
       | Inr names \<Rightarrow>
           (let name = remdups names in
            if length name > 1 then Inl ValueError
            else
              (case name of
                 [] \<Rightarrow> Inl IndexError
               | n # ns \<Rightarrow> validate_levels cls n (levels data))))))"

section \<open>Properties of the attachment of transformations\<close>

text \<open>
  The four branches of \<^verbatim>\<open>_parse_transformations\<close>, with "absent or empty" written
  as membership in \<open>{None, Some []}\<close>.
\<close>

lemma parse_transformations_cases:
  "parse_transformations e t =
     (if attrs_transform e \<notin> {None, Some []} \<and> t \<notin> {None, Some []} then Inl ValueError
      else if attrs_transform e \<notin> {None, Some []} then Inr e
      else if t \<notin> {None, Some []} then Inr (e\<lparr>attrs_transform := t\<rparr>)
      else Inr (e\<lparr>attrs_transform := Some [(''global'', Identity)]\<rparr>))"
proof (cases "attrs_transform e")
  case None
  then show ?thesis
    by (cases t)
      (simp_all add: parse_transformations_def validate_mapping_to_coordinate_system_type_def
        get_transformations_def set_transformations_def DEFAULT_COORDINATE_SYSTEM_def)
next
  case (Some a)
  then have "e\<lparr>attrs_transform := Some a\<rparr> = e" by simp
  with Some show ?thesis
    by (cases t)
      (simp_all add: parse_transformations_def validate_mapping_to_coordinate_system_type_def
        get_transformations_def set_transformations_def DEFAULT_COORDINATE_SYSTEM_def)
qed

lemma parse_transformations_stored:
  assumes "parse_transformations e t = Inr e'"
  shows "attrs_transform e' \<notin> {None, Some []}"
proof -
  from assms have
    "e' = e \<and> attrs_transform e \<notin> {None, Some []}
     \<or> e' = e\<lparr>attrs_transform := t\<rparr> \<and> t \<notin> {None, Some []}
     \<or> e' = e\<lparr>attrs_transform := Some [(''global'', Identity)]\<rparr>"
    unfolding parse_transformations_cases by (simp split: if_splits)
  then show ?thesis by auto
qed

text \<open>
  Claim C7, as the code has it. Once a call of \<^verbatim>\<open>_parse_transformations\<close> has
  returned, the element stores a mapping that is not empty. Calling again with that very
  mapping raises \<^verbatim>\<open>ValueError\<close>, because both sources are then given. The call is
  idempotent when it is repeated without a mapping (\<^verbatim>\<open>None\<close> or an empty dict), and
  when the stored mapping is passed after the metadata of the element has been cleared:
  both return, with the metadata equal to the stored mapping.
\<close>

theorem reparse_stored_mapping:
  assumes "parse_transformations e t = Inr e'"
  shows "\<exists>m. attrs_transform e' = Some m \<and> m \<noteq> []
           \<and> parse_transformations e' (Some m) = Inl ValueError
           \<and> parse_transformations e' None = Inr e'
           \<and> parse_transformations e' (Some []) = Inr e'
           \<and> parse_transformations (e'\<lparr>attrs_transform := None\<rparr>) (Some m) = Inr e'"
proof -
  from parse_transformations_stored [OF assms]
  obtain m where m: "attrs_transform e' = Some m" "m \<noteq> []"
    by (cases "attrs_transform e'") auto
  have same: "e'\<lparr>attrs_transform := Some m\<rparr> = e'" using m by simp
  have "parse_transformations e' (Some m) = Inl ValueError"
    using m by (simp add: parse_transformations_cases)
  moreover have "parse_transformations e' None = Inr e'"
    using m by (simp add: parse_transformations_cases)
  moreover have "parse_transformations e' (Some []) = Inr e'"
    using m by (simp add: parse_transformations_cases)
  moreover have "parse_transformations (e'\<lparr>attrs_transform := None\<rparr>) (Some m) = Inr e'"
    using m same by (simp add: parse_transformations_cases)
  ultimately show ?thesis using m by blast
qed

text \<open>
  The first call on an element without metadata stores \<open>{"global": Identity}\<close>; the
  second call, handed that mapping, raises.
\<close>

theorem reparse_stored_mapping_counterexample:
  "parse_transformations \<lparr>attrs_transform = None\<rparr> None
     = Inr \<lparr>attrs_transform = Some [(''global'', Identity)]\<rparr>
   \<and> parse_transformations \<lparr>attrs_transform = Some [(''global'', Identity)]\<rparr>
        (Some [(''global'', Identity)]) = Inl ValueError"
  by (simp add: parse_transformations_cases)

theorem reparse_stored_mapping_witness:
  "parse_transformations \<lparr>attrs_transform = None\<rparr> (Some [(''my_space'', Scale [2] [''x''])])
     = Inr \<lparr>attrs_transform = Some [(''my_space'', Scale [2] [''x''])]\<rparr>
   \<and> (\<exists>m. attrs_transform \<lparr>attrs_transform = Some [(''my_space'', Scale [2] [''x''])]\<rparr> = Some m
        \<and> m \<noteq> []
        \<and> parse_transformations \<lparr>attrs_transform = Some [(''my_space'', Scale [2] [''x''])]\<rparr> (Some m)
            = Inl ValueError
        \<and> parse_transformations \<lparr>attrs_transform = Some [(''my_space'', Scale [2] [''x''])]\<rparr> None
            = Inr \<lparr>attrs_transform = Some [(''my_space'', Scale [2] [''x''])]\<rparr>)"
proof -
  have h: "parse_transformations \<lparr>attrs_transform = None\<rparr> (Some [(''my_space'', Scale [2] [''x''])])
     = Inr \<lparr>attrs_transform = Some [(''my_space'', Scale [2] [''x''])]\<rparr>"
    by (simp add: parse_transformations_cases)
  from reparse_stored_mapping [OF h] h show ?thesis by blast
qed

section \<open>Properties of the annotation table\<close>

text \<open>
  Claim C6, as the code has it. \<^verbatim>\<open>TableModel.parse\<close> called with \<^verbatim>\<open>region\<close>,
  \<^verbatim>\<open>region_key\<close> and \<^verbatim>\<open>instance_key\<close> all \<^verbatim>\<open>None\<close>, on a table without a
  metadata block, returns, and the table then has a metadata block: the one whose three
  entries are \<^verbatim>\<open>None\<close>. No linkage is recorded in it, but the block is present.
\<close>

theorem table_parse_no_region:
  assumes "uns_attrs adata = None"
  shows "table_parse adata PNone PNone PNone
           = Inr (adata\<lparr>uns_attrs := Some [(REGION_KEY, PNone), (REGION_KEY_KEY, PNone),
                                            (INSTANCE_KEY, PNone)]\<rparr>)"
  using assms by (simp add: table_parse_def table_sources_def table_checks_def)

theorem table_parse_no_region_counterexample:
  "table_parse \<lparr>obs = [], uns_attrs = None\<rparr> PNone PNone PNone
     = Inr \<lparr>obs = [], uns_attrs = Some [(''region'', PNone), (''region_key'', PNone),
                                         (''instance_key'', PNone)]\<rparr>
   \<and> uns_attrs \<lparr>obs = [], uns_attrs = Some [(''region'', PNone), (''region_key'', PNone),
                                         (''instance_key'', PNone)]\<rparr> \<noteq> None"
  by (simp add: table_parse_def table_sources_def table_checks_def REGION_KEY_def
      REGION_KEY_KEY_def INSTANCE_KEY_def)

theorem table_parse_no_region_witness:
  "uns_attrs \<lparr>obs = [(''a'', \<lparr>col_values = [POther], categorical = False\<rparr>)], uns_attrs = None\<rparr> = None
   \<and> table_parse \<lparr>obs = [(''a'', \<lparr>col_values = [POther], categorical = False\<rparr>)], uns_attrs = None\<rparr>
        PNone PNone PNone
       = Inr \<lparr>obs = [(''a'', \<lparr>col_values = [POther], categorical = False\<rparr>)],
              uns_attrs = Some [(''region'', PNone), (''region_key'', PNone),
                                (''instance_key'', PNone)]\<rparr>"
  using table_parse_no_region
    [of "\<lparr>obs = [(''a'', \<lparr>col_values = [POther], categorical = False\<rparr>)], uns_attrs = None\<rparr>"]
  by (simp add: REGION_KEY_def REGION_KEY_KEY_def INSTANCE_KEY_def)

section \<open>Properties of the validation of shapes\<close>

text \<open>
  With a geometry series under \<^verbatim>\<open>"geometry"\<close>, the outcome of
  \<^verbatim>\<open>ShapesModel.validate\<close> is decided by the first row, the presence of a radius
  column and the presence of the transformations.
\<close>

lemma shapes_validate_geoseries:
  "map_of (columns data) GEOMETRY_KEY = Some (GeoSeries geoms) \<Longrightarrow>
   shapes_validate data =
     (case geoms of
        [] \<Rightarrow> Inl IndexError
      | g # gs \<Rightarrow>
          if g \<notin> {POLYGON, MULTIPOLYGON, POINT} then Inl ValueError
          else if g = POINT \<and> \<not> has_column data RADIUS_KEY then Inl ValueError
          else if attrs_transform data = None then Inl ValueError
          else Inr ())"
  by (cases geoms) (auto simp: shapes_validate_def)

text \<open>
  Claim C10. \<^verbatim>\<open>ShapesModel.validate\<close> reads the first geometry row without a test
  for emptiness: on a table with no row (geometry column present) it fails with
  \<^verbatim>\<open>IndexError\<close>, an out-of-bounds read and not a validation error, whether or not
  the transformations are present. On a table with rows only the first row is inspected:
  two tables that agree on the first geometry, on the presence of a radius column and on
  the transformations get the same verdict, whatever their other rows are.
\<close>

theorem shapes_validate_first_row:
  "(map_of (columns data) GEOMETRY_KEY = Some (GeoSeries [])
      \<longrightarrow> shapes_validate data = Inl IndexError)
   \<and> (map_of (columns data) GEOMETRY_KEY = Some (GeoSeries (g # gs))
        \<and> map_of (columns data') GEOMETRY_KEY = Some (GeoSeries (g # gs'))
        \<and> has_column data' RADIUS_KEY = has_column data RADIUS_KEY
        \<and> attrs_transform data' = attrs_transform data
      \<longrightarrow> shapes_validate data' = shapes_validate data)"
  by (simp add: shapes_validate_geoseries)

theorem shapes_validate_first_row_witness:
  "shapes_validate \<lparr>attrs_transform = Some [(''global'', Identity)],
                     columns = [(''geometry'', GeoSeries [])]\<rparr> = Inl IndexError
   \<and> shapes_validate \<lparr>attrs_transform = Some [(''global'', Identity)],
                       columns = [(''geometry'', GeoSeries [POLYGON, LINESTRING, POINT])]\<rparr>
     = shapes_validate \<lparr>attrs_transform = Some [(''global'', Identity)],
                         columns = [(''geometry'', GeoSeries [POLYGON])]\<rparr>"
  using shapes_validate_first_row
    [of "\<lparr>attrs_transform = Some [(''global'', Identity)],
          columns = [(''geometry'', GeoSeries [])]\<rparr>"]
    shapes_validate_first_row
    [of "\<lparr>attrs_transform = Some [(''global'', Identity)],
          columns = [(''geometry'', GeoSeries [POLYGON])]\<rparr>" POLYGON "[]"
        "\<lparr>attrs_transform = Some [(''global'', Identity)],
          columns = [(''geometry'', GeoSeries [POLYGON, LINESTRING, POINT])]\<rparr>"
        "[LINESTRING, POINT]"]
  by (simp add: GEOMETRY_KEY_def has_column_def RADIUS_KEY_def)

text \<open>
  Claim C8, as the code has it. \<^verbatim>\<open>ShapesModel.validate\<close> accepts a table exactly
  when its geometry column is a geometry series with at least one row, the first geometry
  is a \<^verbatim>\<open>Point\<close>, \<^verbatim>\<open>Polygon\<close> or \<^verbatim>\<open>MultiPolygon\<close>, a radius column is
  present if that first geometry is a \<^verbatim>\<open>Point\<close>, and the transformations are
  present. It raises \<^verbatim>\<open>ValueError\<close> for every table whose first geometry is of
  another kind. The rows after the first are not inspected.
\<close>

theorem shapes_validate_accepts_iff:
  "(shapes_validate data = Inr () \<longleftrightarrow>
      (\<exists>g gs. map_of (columns data) GEOMETRY_KEY = Some (GeoSeries (g # gs))
         \<and> g \<in> {POINT, POLYGON, MULTIPOLYGON}
         \<and> (g = POINT \<longrightarrow> has_column data RADIUS_KEY)
         \<and> attrs_transform data \<noteq> None))
   \<and> (map_of (columns data) GEOMETRY_KEY = Some (GeoSeries (g' # gs'))
        \<and> g' \<notin> {POINT, POLYGON, MULTIPOLYGON}
      \<longrightarrow> shapes_validate data = Inl ValueError)"
proof -
  have "shapes_validate data = Inr () \<longleftrightarrow>
      (\<exists>g gs. map_of (columns data) GEOMETRY_KEY = Some (GeoSeries (g # gs))
         \<and> g \<in> {POINT, POLYGON, MULTIPOLYGON}
         \<and> (g = POINT \<longrightarrow> has_column data RADIUS_KEY)
         \<and> attrs_transform data \<noteq> None)"
  proof (cases "map_of (columns data) GEOMETRY_KEY")
    case None
    then show ?thesis by (simp add: shapes_validate_def)
  next
    case (Some col)
    show ?thesis
    proof (cases col)
      case (GeoSeries geoms)
      with Some show ?thesis
        by (cases geoms) (auto simp: shapes_validate_geoseries)
    next
      case (Series xs)
      with Some show ?thesis by (simp add: shapes_validate_def)
    qed
  qed
  moreover have "map_of (columns data) GEOMETRY_KEY = Some (GeoSeries (g' # gs'))
        \<and> g' \<notin> {POINT, POLYGON, MULTIPOLYGON}
      \<longrightarrow> shapes_validate data = Inl ValueError"
    by (auto simp: shapes_validate_geoseries)
  ultimately show ?thesis by blast
qed

text \<open>
  A table of a polygon followed by a line string, and a table that mixes a point with a
  polygon, are both accepted.
\<close>

theorem shapes_validate_accepts_iff_counterexample:
  "shapes_validate \<lparr>attrs_transform = Some [(''global'', Identity)],
                     columns = [(''geometry'', GeoSeries [POLYGON, LINESTRING])]\<rparr> = Inr ()
   \<and> shapes_validate \<lparr>attrs_transform = Some [(''global'', Identity)],
                       columns = [(''geometry'', GeoSeries [POINT, POLYGON]),
                                  (''radius'', Series [1, 1])]\<rparr> = Inr ()"
  by (simp add: shapes_validate_def GEOMETRY_KEY_def has_column_def RADIUS_KEY_def)

theorem shapes_validate_accepts_iff_witness:
  "shapes_validate \<lparr>attrs_transform = Some [(''global'', Identity)],
                     columns = [(''geometry'', GeoSeries [POINT, POINT]),
                                (''radius'', Series [3, 4])]\<rparr> = Inr ()
   \<and> shapes_validate \<lparr>attrs_transform = Some [(''global'', Identity)],
                     columns = [(''geometry'', GeoSeries [LINESTRING, POINT]),
                                (''radius'', Series [3, 4])]\<rparr> = Inl ValueError"
  using shapes_validate_accepts_iff
    [of "\<lparr>attrs_transform = Some [(''global'', Identity)],
                     columns = [(''geometry'', GeoSeries [POINT, POINT]),
                                (''radius'', Series [3, 4])]\<rparr>" LINESTRING "[POINT]"]
   shapes_validate_accepts_iff
    [of "\<lparr>attrs_transform = Some [(''global'', Identity)],
                     columns = [(''geometry'', GeoSeries [LINESTRING, POINT]),
                                (''radius'', Series [3, 4])]\<rparr>" LINESTRING "[POINT]"]
  by (simp add: GEOMETRY_KEY_def has_column_def RADIUS_KEY_def)

section \<open>Properties of the parse entry points of shapes\<close>













section \<open>Transformations given twice\<close>












section \<open>Properties of the parse of the annotation table\<close>

text \<open>
  When \<^verbatim>\<open>region\<close> is passed, the triple comes from the arguments and the table
  must not have a metadata block yet. A raise of the checks leaves the table as it was,
  or with the column of \<^verbatim>\<open>region_key\<close> made categorical.
\<close>

lemma table_sources_args:
  "region \<noteq> PNone \<Longrightarrow> table_sources adata region region_key instance_key =
     (if uns_attrs adata \<noteq> None then Inl ValueError
      else Inr (region, region_key, instance_key))"
  by (simp add: table_sources_def)

lemma obs_values_to_categorical:
  "map (\<lambda>(k, c). (k, col_values c)) (obs (to_categorical adata key))
     = map (\<lambda>(k, c). (k, col_values c)) (obs adata)"
  by (simp add: to_categorical_def split_def)



text \<open>
  Claim C3, as the code has it. For \<^verbatim>\<open>TableModel.parse\<close> with \<^verbatim>\<open>region\<close> a
  list: without \<^verbatim>\<open>region_key\<close> the parse raises; when the observation column named
  by \<^verbatim>\<open>region_key\<close> has a value that is not in \<^verbatim>\<open>region\<close> the parse raises; and
  when the table has no metadata block yet, the column exists, its values are all in
  \<^verbatim>\<open>region\<close> and \<^verbatim>\<open>instance_key\<close> is given, the parse returns and the metadata
  block read afterwards is the triple that was passed, the names and values of the
  observation columns being as before.
\<close>

theorem table_parse_region_list:
  "table_parse adata (PList region) PNone instance_key = Inl (ValueError, adata)
   \<and> (map_of (obs adata) region_key = Some col
        \<and> \<not> list_all (isin region) (col_values col)
      \<longrightarrow> table_parse adata (PList region) (PStr region_key) instance_key
            = Inl (ValueError, adata))
   \<and> (uns_attrs adata = None
        \<and> map_of (obs adata) region_key = Some col
        \<and> list_all (isin region) (col_values col)
        \<and> instance_key \<noteq> PNone
      \<longrightarrow> (\<exists>adata'. table_parse adata (PList region) (PStr region_key) instance_key = Inr adata'
             \<and> uns_attrs adata' = Some [(REGION_KEY, PList region),
                                         (REGION_KEY_KEY, PStr region_key),
                                         (INSTANCE_KEY, instance_key)]
             \<and> map (\<lambda>(k, c). (k, col_values c)) (obs adata')
                 = map (\<lambda>(k, c). (k, col_values c)) (obs adata)))"
proof -
  have a: "table_parse adata (PList region) PNone instance_key = Inl (ValueError, adata)"
    by (simp add: table_parse_def table_sources_args table_checks_def)
  have b: "table_parse adata (PList region) (PStr region_key) instance_key
            = Inl (ValueError, adata)"
    if "map_of (obs adata) region_key = Some col" "\<not> list_all (isin region) (col_values col)"
    using that by (simp add: table_parse_def table_sources_args table_checks_def obs_getitem_def)
  have c: "\<exists>adata'. table_parse adata (PList region) (PStr region_key) instance_key = Inr adata'
             \<and> uns_attrs adata' = Some [(REGION_KEY, PList region),
                                         (REGION_KEY_KEY, PStr region_key),
                                         (INSTANCE_KEY, instance_key)]
             \<and> map (\<lambda>(k, c). (k, col_values c)) (obs adata')
                 = map (\<lambda>(k, c). (k, col_values c)) (obs adata)"
    if "uns_attrs adata = None" "map_of (obs adata) region_key = Some col"
       "list_all (isin region) (col_values col)" "instance_key \<noteq> PNone"
    using that
    by (simp add: table_parse_def table_sources_args table_checks_def obs_getitem_def
        obs_values_to_categorical Let_def)
  from a b c show ?thesis by blast
qed

text \<open>
  A table that already has a metadata block: every condition on the list and the
  column holds, and the parse raises because the arguments are passed as well (line 640).
\<close>

theorem table_parse_region_list_counterexample:
  "table_parse
     \<lparr>obs = [(''annotated_region'', \<lparr>col_values = [PStr ''sample1''], categorical = True\<rparr>)],
      uns_attrs = Some [(''region'', PNone), (''region_key'', PNone), (''instance_key'', PNone)]\<rparr>
     (PList [''sample1'', ''sample2'']) (PStr ''annotated_region'') (PStr ''instance_id'')
   = Inl (ValueError,
     \<lparr>obs = [(''annotated_region'', \<lparr>col_values = [PStr ''sample1''], categorical = True\<rparr>)],
      uns_attrs = Some [(''region'', PNone), (''region_key'', PNone), (''instance_key'', PNone)]\<rparr>)"
  by (simp add: table_parse_def table_sources_def)

theorem table_parse_region_list_witness:
  "table_parse
     \<lparr>obs = [(''annotated_region'',
              \<lparr>col_values = [PStr ''sample1'', PStr ''sample2''], categorical = False\<rparr>)],
      uns_attrs = None\<rparr>
     (PList [''sample1'', ''sample2'']) PNone (PStr ''instance_id'')
   = Inl (ValueError,
     \<lparr>obs = [(''annotated_region'',
              \<lparr>col_values = [PStr ''sample1'', PStr ''sample2''], categorical = False\<rparr>)],
      uns_attrs = None\<rparr>)
   \<and> (\<exists>adata'. table_parse
     \<lparr>obs = [(''annotated_region'',
              \<lparr>col_values = [PStr ''sample1'', PStr ''sample2''], categorical = False\<rparr>)],
      uns_attrs = None\<rparr>
     (PList [''sample1'', ''sample2'']) (PStr ''annotated_region'') (PStr ''instance_id'')
       = Inr adata'
      \<and> uns_attrs adata' = Some [(REGION_KEY, PList [''sample1'', ''sample2'']),
                                  (REGION_KEY_KEY, PStr ''annotated_region''),
                                  (INSTANCE_KEY, PStr ''instance_id'')])"
proof -
  let ?col = "\<lparr>col_values = [PStr ''sample1'', PStr ''sample2''], categorical = False\<rparr>"
  let ?adata = "\<lparr>obs = [(''annotated_region'', ?col)], uns_attrs = None\<rparr>"
  have h: "uns_attrs ?adata = None
        \<and> map_of (obs ?adata) ''annotated_region'' = Some ?col
        \<and> list_all (isin [''sample1'', ''sample2'']) (col_values ?col)
        \<and> PStr ''instance_id'' \<noteq> PNone"
    by (simp add: isin_def)
  note inst = table_parse_region_list
    [of ?adata "[''sample1'', ''sample2'']" "PStr ''instance_id''" "''annotated_region''" ?col]
  from inst [THEN conjunct1] inst [THEN conjunct2, THEN conjunct2, rule_format, OF h]
  show ?thesis by blast
qed

section \<open>What a failing parse leaves behind\<close>












section \<open>Properties of the validation of multiscale elements\<close>

text \<open>
  The three loops of \<^verbatim>\<open>validate\<close>, each as a condition on the levels.
\<close>

lemma check_keys_zip:
  "length xs = length ys \<Longrightarrow>
   check_keys (zip xs ys) = (if xs = ys then Inr () else Inl ValueError)"
  by (induction xs ys rule: list_induct2) auto

lemma first_names_eq:
  "first_names ls =
     (if \<forall>(key, data_vars) \<in> set ls. data_vars \<noteq> []
      then Inr (map (\<lambda>(key, data_vars). fst (hd data_vars)) ls) else Inl IndexError)"
proof (induction ls)
  case Nil
  show ?case by simp
next
  case (Cons l ls)
  obtain key data_vars where l: "l = (key, data_vars)" by (cases l)
  show ?case
  proof (cases data_vars)
    case Nil
    with l show ?thesis by auto
  next
    case (Cons v vs)
    obtain n da where v: "v = (n, da)" by (cases v)
    from Cons.IH l Cons v show ?thesis by (auto split: sum.splits)
  qed
qed

lemma validate_levels_iff:
  "validate_levels cls name ls = Inr () \<longleftrightarrow>
     (\<forall>(key, data_vars) \<in> set ls.
        \<exists>da. map_of data_vars name = Some da \<and> schema_validate cls da = Inr ())"
proof (induction ls)
  case Nil
  show ?case by simp
next
  case (Cons l ls)
  obtain key data_vars where l: "l = (key, data_vars)" by (cases l)
  show ?case
  proof (cases "map_of data_vars name")
    case None
    with l show ?thesis by simp
  next
    case (Some da)
    with l Cons.IH show ?thesis
      by (cases "schema_validate cls da") auto
  qed
qed

lemma remdups_single:
  "length (remdups ns) \<le> 1 \<Longrightarrow> remdups ns = n # rest \<Longrightarrow> set ns = {n}"
proof -
  assume a: "length (remdups ns) \<le> 1" and b: "remdups ns = n # rest"
  then have "rest = []" by (cases rest) auto
  with b have "set (remdups ns) = {n}" by simp
  then show ?thesis by simp
qed

lemma remdups_of_single:
  "ns \<noteq> [] \<Longrightarrow> set ns \<subseteq> {n} \<Longrightarrow> remdups ns = [n]"
proof (induction ns)
  case Nil
  then show ?case by simp
next
  case (Cons a ns)
  then show ?case by (cases ns) auto
qed


text \<open>
  Claim C4, as the code has it. \<^verbatim>\<open>RasterSchema.validate\<close> accepts a multiscale
  element exactly when the names of its levels are \<open>scale0, scale1, \<dots>\<close> in order, it
  has at least one level, and there is a name such that at every level the first data
  variable has that name and passes the single-scale check. A level may expose further
  variables: only the first one of each level is looked at.
\<close>

theorem multiscale_validate_accepts_iff:
  "raster_validate cls (MultiscaleSpatialImage data) = Inr () \<longleftrightarrow>
     map fst (levels data) = map (\<lambda>i. ''scale'' @ str_nat i) [0..<length (levels data)]
     \<and> levels data \<noteq> []
     \<and> (\<exists>name. \<forall>(key, data_vars) \<in> set (levels data).
            \<exists>da others. data_vars = (name, da) # others \<and> schema_validate cls da = Inr ())"
  (is "?lhs \<longleftrightarrow> ?keys \<and> ?nonempty \<and> ?vars")
proof -
  let ?ls = "levels data"
  let ?names = "map (\<lambda>(key, data_vars). fst (hd data_vars)) ?ls"
  have len: "length (map fst ?ls)
      = length (map (\<lambda>i. ''scale'' @ str_nat i) [0..<length (map fst ?ls)])"
    by simp
  have keys: "check_keys (zip (map fst ?ls)
                (map (\<lambda>i. ''scale'' @ str_nat i) [0..<length (map fst ?ls)]))
      = (if ?keys then Inr () else Inl ValueError)"
    using check_keys_zip [OF len] by simp
  show ?thesis
  proof
    assume lhs: ?lhs
    from lhs keys have k: ?keys
      by (auto simp: Let_def split: if_splits)
    from lhs k keys have full: "\<forall>(key, data_vars) \<in> set ?ls. data_vars \<noteq> []"
      by (auto simp: Let_def first_names_eq split: if_splits)
    then have fn: "first_names ?ls = Inr ?names"
      by (simp add: first_names_eq)
    from lhs k keys fn have short: "length (remdups ?names) \<le> 1"
      by (auto simp: Let_def split: if_splits)
    from lhs k keys fn short obtain n rest where
      n: "remdups ?names = n # rest" and v: "validate_levels cls n ?ls = Inr ()"
      by (cases "remdups ?names") (auto simp: Let_def split: if_splits)
    from remdups_single [OF short n] have single: "set ?names = {n}" .
    then have ne: ?nonempty by auto
    have "\<exists>da others. data_vars = (n, da) # others \<and> schema_validate cls da = Inr ()"
      if mem: "(key, data_vars) \<in> set ?ls" for key data_vars
    proof -
      from full mem obtain v vs where dv: "data_vars = v # vs"
        by (cases data_vars) auto
      from mem have "fst (hd data_vars) \<in> set ?names" by force
      with single dv have "fst v = n" by simp
      then obtain da where vda: "v = (n, da)" by (cases v) auto
      from v mem obtain da' where "map_of data_vars n = Some da'"
        and "schema_validate cls da' = Inr ()"
        unfolding validate_levels_iff by blast
      with dv vda show ?thesis by simp
    qed
    then have ?vars by blast
    with k ne show "?keys \<and> ?nonempty \<and> ?vars" by blast
  next
    assume rhs: "?keys \<and> ?nonempty \<and> ?vars"
    then obtain name where name: "\<forall>(key, data_vars) \<in> set ?ls.
            \<exists>da others. data_vars = (name, da) # others \<and> schema_validate cls da = Inr ()"
      by blast
    from rhs have k: ?keys and ne: ?nonempty by blast+
    from name have full: "\<forall>(key, data_vars) \<in> set ?ls. data_vars \<noteq> []"
      by fastforce
    then have fn: "first_names ?ls = Inr ?names"
      by (simp add: first_names_eq)
    from name have "set ?names \<subseteq> {name}" by fastforce
    moreover from ne have "?names \<noteq> []" by simp
    ultimately have rd: "remdups ?names = [name]" by (rule remdups_of_single [rotated])
    from name have v: "validate_levels cls name ?ls = Inr ()"
      unfolding validate_levels_iff by fastforce
    from k keys fn rd v show ?lhs by (simp add: Let_def)
  qed
qed


text \<open>
  A level with two data variables, the second of which would not pass the single-scale
  check, is accepted.
\<close>

theorem multiscale_validate_accepts_iff_counterexample:
  "raster_validate Labels2DModel
     (MultiscaleSpatialImage
        \<lparr>attrs_transform = None,
         levels = [(''scale0'',
                    [(''image'', \<lparr>attrs_transform = Some [(''global'', Identity)],
                                  da_dims = [''y'', ''x''], da_shape = [4, 4], da_data = Dask\<rparr>),
                     (''mask'', \<lparr>attrs_transform = None,
                                 da_dims = [''x''], da_shape = [4], da_data = Numpy\<rparr>)])]\<rparr>)
   = Inr ()"
  by (simp add: str_nat.simps schema_validate_def)

theorem multiscale_validate_accepts_iff_witness:
  "raster_validate Labels2DModel
     (MultiscaleSpatialImage
        \<lparr>attrs_transform = None,
         levels = [(''scale0'',
                    [(''image'', \<lparr>attrs_transform = Some [(''global'', Identity)],
                                  da_dims = [''y'', ''x''], da_shape = [4, 4], da_data = Dask\<rparr>)]),
                   (''scale1'',
                    [(''image'', \<lparr>attrs_transform = Some [(''global'', Identity)],
                                  da_dims = [''y'', ''x''], da_shape = [2, 2], da_data = Dask\<rparr>)])]\<rparr>)
   = Inr ()"
proof -
  let ?a = "\<lparr>attrs_transform = Some [(''global'', Identity)],
             da_dims = [''y'', ''x''], da_shape = [4, 4], da_data = Dask\<rparr>"
  let ?b = "\<lparr>attrs_transform = Some [(''global'', Identity)],
             da_dims = [''y'', ''x''], da_shape = [2, 2], da_data = Dask\<rparr>"
  let ?good = "\<lparr>attrs_transform = None,
                levels = [(''scale0'', [(''image'', ?a)]), (''scale1'', [(''image'', ?b)])]\<rparr>"
  have names: "map fst (levels ?good)
      = map (\<lambda>i. ''scale'' @ str_nat i) [0..<length (levels ?good)]"
    by (simp add: str_nat.simps upt_rec)
  have ne: "levels ?good \<noteq> []" by simp
  have vars: "\<forall>(key, data_vars) \<in> set (levels ?good).
      \<exists>da others. data_vars = (''image'', da) # others
        \<and> schema_validate Labels2DModel da = Inr ()"
    by (simp add: schema_validate_def)
  have ex: "\<exists>name. \<forall>(key, data_vars) \<in> set (levels ?good).
      \<exists>da others. data_vars = (name, da) # others
        \<and> schema_validate Labels2DModel da = Inr ()"
    by (rule exI [where x = "''image''"]) (rule vars)
  show ?thesis
    by (rule multiscale_validate_accepts_iff [THEN iffD2]) (intro conjI names ne ex)
qed

section \<open>Properties of the parse of raster elements\<close>
























end
